theory Spec2Isabelle
  imports Main
begin

section \<open>JavaScript values\<close>

text \<open>
  The request bodies of the bookmark API are parsed JSON, and the handlers inspect them with
  JavaScript's dynamic operators. A value is one of the six JSON kinds; \<open>undefined\<close> (a
  property that the body does not have) is \<open>None\<close> of \<open>json option\<close>. Strings are
  sequences of code units, modelled as \<open>string\<close>; the handlers observe of a number only
  whether it is zero, so numbers are integers. An object is the list of its own properties
  (keys distinct, as \<open>JSON.parse\<close> leaves them).
\<close>

datatype json =
    JNull
  | JBool bool
  | JNum int
  | JStr string
  | JArr "json list"
  | JObj "(string \<times> json) list"

datatype error = TypeError

text \<open>\<open>truthy v\<close> is JavaScript's \<open>ToBoolean\<close>: what \<open>!v\<close>, \<open>v && ...\<close>, \<open>v || ...\<close> and
  \<open>if (v)\<close> test.\<close>

fun truthy :: "json option \<Rightarrow> bool" where
  "truthy None = False"
| "truthy (Some JNull) = False"
| "truthy (Some (JBool b)) = b"
| "truthy (Some (JNum n)) = (n \<noteq> 0)"
| "truthy (Some (JStr s)) = (s \<noteq> [])"
| "truthy (Some (JArr xs)) = True"
| "truthy (Some (JObj kvs)) = True"

text \<open>
  The operations of the JavaScript runtime that the server calls and that are no code of
  this repository are parameters of the model:
  \<^item> \<open>URL_parses v\<close>: the constructor call \<open>new URL(v)\<close> returns instead of throwing;
  \<^item> \<open>toLowerCase s\<close>: \<open>String.prototype.toLowerCase\<close>;
  \<^item> \<open>trim s\<close>: \<open>String.prototype.trim\<close>;
  \<^item> \<open>gt_coerced v n\<close>: the comparison \<open>v > n\<close> for an operand \<open>v\<close> that is not a number
    (it converts \<open>v\<close> to a number first); \<open>None\<close> when the conversion throws.
\<close>

record builtins =
  URL_parses :: "json \<Rightarrow> bool"
  toLowerCase :: "string \<Rightarrow> string"
  trim :: "string \<Rightarrow> string"
  gt_coerced :: "json \<Rightarrow> int \<Rightarrow> bool option"

text \<open>\<open>isValidUrl\<close>: \<open>try { new URL(url); return true } catch { return false }\<close>.\<close>

definition isValidUrl :: "builtins \<Rightarrow> json \<Rightarrow> bool" where
  "isValidUrl B url = (if URL_parses B url then True else False)"

text \<open>\<open>get_length v\<close> is the property read \<open>v.length\<close>: defined on strings and arrays, an own
  property of an object if it has one, \<open>undefined\<close> on numbers and booleans, and a
  \<open>TypeError\<close> on \<open>null\<close>.\<close>

fun get_length :: "json \<Rightarrow> error + json option" where
  "get_length JNull = Inl TypeError"
| "get_length (JBool b) = Inr None"
| "get_length (JNum n) = Inr None"
| "get_length (JStr s) = Inr (Some (JNum (int (length s))))"
| "get_length (JArr xs) = Inr (Some (JNum (int (length xs))))"
| "get_length (JObj kvs) = Inr (map_of kvs ''length'')"

text \<open>\<open>js_gt B l n\<close> is \<open>l > n\<close> for a number literal \<open>n\<close>: \<open>undefined\<close> converts to
  \<open>NaN\<close>, which is greater than nothing.\<close>

fun js_gt :: "builtins \<Rightarrow> json option \<Rightarrow> int \<Rightarrow> error + bool" where
  "js_gt B None n = Inr False"
| "js_gt B (Some (JNum k)) n = Inr (n < k)"
| "js_gt B (Some v) n = (case gt_coerced B v n of None \<Rightarrow> Inl TypeError | Some b \<Rightarrow> Inr b)"

definition length_gt :: "builtins \<Rightarrow> json \<Rightarrow> int \<Rightarrow> error + bool" where
  "length_gt B v n = (case get_length v of Inl e \<Rightarrow> Inl e | Inr l \<Rightarrow> js_gt B l n)"

text \<open>\<open>errors.join(', ')\<close>.\<close>

fun join :: "string \<Rightarrow> string list \<Rightarrow> string" where
  "join sep [] = []"
| "join sep [x] = x"
| "join sep (x # y # ys) = x @ sep @ join sep (y # ys)"

text \<open>\<open>Array.prototype.findIndex\<close>; \<open>None\<close> is the result \<open>-1\<close>.\<close>

fun findIndex :: "('a \<Rightarrow> bool) \<Rightarrow> 'a list \<Rightarrow> nat option" where
  "findIndex P [] = None"
| "findIndex P (x # xs) = (if P x then Some 0 else map_option Suc (findIndex P xs))"

text \<open>\<open>Array.prototype.filter\<close> with a callback that may throw: the first exception ends the
  traversal.\<close>

fun filter_js :: "('a \<Rightarrow> error + bool) \<Rightarrow> 'a list \<Rightarrow> error + 'a list" where
  "filter_js f [] = Inr []"
| "filter_js f (x # xs) =
     (case f x of
        Inl e \<Rightarrow> Inl e
      | Inr keep \<Rightarrow>
          (case filter_js f xs of
             Inl e \<Rightarrow> Inl e
           | Inr ys \<Rightarrow> Inr (if keep then x # ys else ys)))"

text \<open>\<open>String.prototype.includes\<close>: the argument occurs as a contiguous part.\<close>

fun is_substring :: "string \<Rightarrow> string \<Rightarrow> bool" where
  "is_substring x [] = (x = [])"
| "is_substring x (c # cs) = (take (length x) (c # cs) = x \<or> is_substring x cs)"

section \<open>Bookmarks, payloads and responses\<close>

text \<open>
  A stored bookmark is a JavaScript object; a property that is \<open>undefined\<close> is \<open>None\<close>.
  \<open>id\<close> and \<open>createdAt\<close> are strings (\<open>uuidv4()\<close>, \<open>toISOString()\<close>).
  The store is the module-level array \<open>bookmarks\<close>.
\<close>

record bookmark =
  b_id :: string
  b_url :: "json option"
  b_title :: "json option"
  b_description :: "json option"
  b_tags :: "json option"
  b_createdAt :: string

type_synonym store = "bookmark list"

text \<open>The payload is the request body after
  \<open>const { url, title, description, tags } = req.body\<close>: no other property of the body is
  read.\<close>

record payload =
  p_url :: "json option"
  p_title :: "json option"
  p_description :: "json option"
  p_tags :: "json option"

datatype data =
    DBookmark bookmark
  | DList "bookmark list"
  | DTitle json

text \<open>\<open>Success s d\<close> is \<open>res.status(s).json({success: true, data: d})\<close>, \<open>Failure s m\<close> is
  \<open>res.status(s).json({success: false, error: m})\<close>.\<close>

datatype response =
    Success nat data
  | Failure nat string

text \<open>\<open>res.json\<close> serialises with \<open>JSON.stringify\<close>, which leaves out a property whose
  value is \<open>undefined\<close> and writes \<open>null\<close> for \<open>null\<close>.\<close>

definition property :: "string \<Rightarrow> json option \<Rightarrow> (string \<times> json) list" where
  "property k v = (case v of None \<Rightarrow> [] | Some x \<Rightarrow> [(k, x)])"

definition bookmark_json :: "bookmark \<Rightarrow> (string \<times> json) list" where
  "bookmark_json b =
     [(''id'', JStr (b_id b))] @ property ''url'' (b_url b) @ property ''title'' (b_title b)
     @ property ''description'' (b_description b) @ property ''tags'' (b_tags b)
     @ [(''createdAt'', JStr (b_createdAt b))]"

section \<open>Validation\<close>

text \<open>\<open>tags.some(tag => tag !== tag.toLowerCase())\<close>: the traversal stops at the first
  element for which the callback is true; an element that is not a string has no
  \<open>toLowerCase\<close> method, and the call throws.\<close>

fun some_not_lower :: "builtins \<Rightarrow> json list \<Rightarrow> error + bool" where
  "some_not_lower B [] = Inr False"
| "some_not_lower B (JStr s # ts) =
     (if s \<noteq> toLowerCase B s then Inr True else some_not_lower B ts)"
| "some_not_lower B (v # ts) = Inl TypeError"

text \<open>The block on \<open>tags\<close>, the same text in POST (lines 162-171) and PUT (lines 227-236).\<close>

definition check_tags :: "builtins \<Rightarrow> json \<Rightarrow> error + string list" where
  "check_tags B t =
     (case t of
        JArr ts \<Rightarrow>
          if 5 < length ts then Inr [''Maximum 5 tags allowed'']
          else (case some_not_lower B ts of
                  Inl e \<Rightarrow> Inl e
                | Inr hasUppercase \<Rightarrow>
                    Inr (if hasUppercase then [''Tags must be lowercase''] else []))
      | _ \<Rightarrow> Inr [''Tags must be an array''])"

text \<open>The \<open>else if (title.length > 200)\<close> branch and its message.\<close>

definition check_length :: "builtins \<Rightarrow> json \<Rightarrow> int \<Rightarrow> string \<Rightarrow> error + string list" where
  "check_length B v n msg =
     (case length_gt B v n of Inl e \<Rightarrow> Inl e | Inr g \<Rightarrow> Inr (if g then [msg] else []))"

text \<open>Statements run in sequence, each pushing its messages on \<open>errors\<close>; an exception
  leaves the sequence.\<close>

definition and_then :: "error + string list \<Rightarrow> error + string list \<Rightarrow> error + string list" where
  "and_then a b =
     (case a of
        Inl e \<Rightarrow> Inl e
      | Inr xs \<Rightarrow> (case b of Inl e \<Rightarrow> Inl e | Inr ys \<Rightarrow> Inr (xs @ ys)))"

subsection \<open>POST /bookmarks, lines 145-172\<close>

definition create_url :: "builtins \<Rightarrow> json option \<Rightarrow> error + string list" where
  "create_url B url =
     (case url of
        None \<Rightarrow> Inr [''URL is required'']
      | Some v \<Rightarrow>
          if \<not> truthy (Some v) then Inr [''URL is required'']
          else if \<not> isValidUrl B v then Inr [''URL must be valid'']
          else Inr [])"

definition create_title :: "builtins \<Rightarrow> json option \<Rightarrow> error + string list" where
  "create_title B title =
     (case title of
        None \<Rightarrow> Inr [''Title is required'']
      | Some v \<Rightarrow>
          if \<not> truthy (Some v) then Inr [''Title is required'']
          else check_length B v 200 ''Title must be max 200 characters'')"

definition create_description :: "builtins \<Rightarrow> json option \<Rightarrow> error + string list" where
  "create_description B description =
     (case description of
        None \<Rightarrow> Inr []
      | Some v \<Rightarrow>
          if truthy (Some v) then check_length B v 500 ''Description must be max 500 characters''
          else Inr [])"

definition create_tags :: "builtins \<Rightarrow> json option \<Rightarrow> error + string list" where
  "create_tags B tags =
     (case tags of
        None \<Rightarrow> Inr []
      | Some v \<Rightarrow> if truthy (Some v) then check_tags B v else Inr [])"

definition validate_create :: "builtins \<Rightarrow> payload \<Rightarrow> error + string list" where
  "validate_create B p =
     and_then (create_url B (p_url p))
       (and_then (create_title B (p_title p))
          (and_then (create_description B (p_description p))
             (create_tags B (p_tags p))))"

subsection \<open>PUT /bookmarks/:id, lines 206-237\<close>

definition update_url :: "builtins \<Rightarrow> json option \<Rightarrow> error + string list" where
  "update_url B url =
     (case url of
        None \<Rightarrow> Inr []
      | Some v \<Rightarrow> if \<not> isValidUrl B v then Inr [''URL must be valid''] else Inr [])"

definition update_title :: "builtins \<Rightarrow> json option \<Rightarrow> error + string list" where
  "update_title B title =
     (case title of
        None \<Rightarrow> Inr []
      | Some v \<Rightarrow>
          if \<not> truthy (Some v) then Inr [''Title is required'']
          else check_length B v 200 ''Title must be max 200 characters'')"

definition update_description :: "builtins \<Rightarrow> json option \<Rightarrow> error + string list" where
  "update_description B description =
     (case description of
        None \<Rightarrow> Inr []
      | Some v \<Rightarrow>
          if truthy (Some v) then check_length B v 500 ''Description must be max 500 characters''
          else Inr [])"

definition update_tags :: "builtins \<Rightarrow> json option \<Rightarrow> error + string list" where
  "update_tags B tags = (case tags of None \<Rightarrow> Inr [] | Some v \<Rightarrow> check_tags B v)"

definition validate_update :: "builtins \<Rightarrow> payload \<Rightarrow> error + string list" where
  "validate_update B p =
     and_then (update_url B (p_url p))
       (and_then (update_title B (p_title p))
          (and_then (update_description B (p_description p))
             (update_tags B (p_tags p))))"

section \<open>The handlers\<close>

text \<open>
  Each handler takes the store and returns the response with the store after the call. The
  body of each handler is inside \<open>try { ... } catch\<close>, which answers an exception with
  status 500. \<open>uuidv4()\<close> and \<open>new Date().toISOString()\<close> are the arguments \<open>newid\<close>
  and \<open>now\<close>.
\<close>

definition or_undefined :: "json option \<Rightarrow> json option" where
  "or_undefined v = (if truthy v then v else None)"

definition newBookmark :: "string \<Rightarrow> string \<Rightarrow> payload \<Rightarrow> bookmark" where
  "newBookmark newid now p =
     \<lparr> b_id = newid, b_url = p_url p, b_title = p_title p,
       b_description = or_undefined (p_description p),
       b_tags = or_undefined (p_tags p),
       b_createdAt = now \<rparr>"

definition post_bookmarks ::
  "builtins \<Rightarrow> string \<Rightarrow> string \<Rightarrow> payload \<Rightarrow> store \<Rightarrow> response \<times> store" where
  "post_bookmarks B newid now p bookmarks =
     (case validate_create B p of
        Inl e \<Rightarrow> (Failure 500 ''Internal server error'', bookmarks)
      | Inr errors \<Rightarrow>
          if 0 < length errors then (Failure 400 (join '', '' errors), bookmarks)
          else (Success 201 (DBookmark (newBookmark newid now p)),
                bookmarks @ [newBookmark newid now p]))"

definition updatedBookmark :: "bookmark \<Rightarrow> payload \<Rightarrow> bookmark" where
  "updatedBookmark old p =
     old \<lparr> b_url := (if p_url p \<noteq> None then p_url p else b_url old),
           b_title := (if p_title p \<noteq> None then p_title p else b_title old),
           b_description := (if p_description p \<noteq> None then p_description p
                             else b_description old),
           b_tags := (if p_tags p \<noteq> None then p_tags p else b_tags old) \<rparr>"

definition put_bookmark :: "builtins \<Rightarrow> string \<Rightarrow> payload \<Rightarrow> store \<Rightarrow> response \<times> store" where
  "put_bookmark B ident p bookmarks =
     (case findIndex (\<lambda>b. b_id b = ident) bookmarks of
        None \<Rightarrow> (Failure 404 ''Bookmark not found'', bookmarks)
      | Some bookmarkIndex \<Rightarrow>
          (case validate_update B p of
             Inl e \<Rightarrow> (Failure 500 ''Internal server error'', bookmarks)
           | Inr errors \<Rightarrow>
               if 0 < length errors then (Failure 400 (join '', '' errors), bookmarks)
               else (Success 200 (DBookmark (updatedBookmark (bookmarks ! bookmarkIndex) p)),
                     bookmarks[bookmarkIndex := updatedBookmark (bookmarks ! bookmarkIndex) p])))"

text \<open>\<open>bookmarks.splice(bookmarkIndex, 1)\<close> removes the element at the index.\<close>

definition delete_bookmark :: "string \<Rightarrow> store \<Rightarrow> response \<times> store" where
  "delete_bookmark ident bookmarks =
     (case findIndex (\<lambda>b. b_id b = ident) bookmarks of
        None \<Rightarrow> (Failure 404 ''Bookmark not found'', bookmarks)
      | Some bookmarkIndex \<Rightarrow>
          (Success 200 (DBookmark (bookmarks ! bookmarkIndex)),
           take bookmarkIndex bookmarks @ drop (Suc bookmarkIndex) bookmarks))"

text \<open>
  The callback of the filter in GET /bookmarks,
  \<open>bookmark.tags && bookmark.tags.includes(tag.toLowerCase())\<close>. The right operand is
  evaluated only when \<open>bookmark.tags\<close> is truthy. An array has \<open>includes\<close> (membership), a
  string has it too (substring); any other truthy value has no such method. A query
  parameter that is not a string (a repeated or bracketed parameter) has no
  \<open>toLowerCase\<close>.
\<close>

definition tag_matches :: "builtins \<Rightarrow> json \<Rightarrow> bookmark \<Rightarrow> error + bool" where
  "tag_matches B tag bookmark =
     (if \<not> truthy (b_tags bookmark) then Inr False
      else (case tag of
              JStr t \<Rightarrow>
                (case b_tags bookmark of
                   Some (JArr ts) \<Rightarrow> Inr (JStr (toLowerCase B t) \<in> set ts)
                 | Some (JStr s) \<Rightarrow> Inr (is_substring (toLowerCase B t) s)
                 | _ \<Rightarrow> Inl TypeError)
            | _ \<Rightarrow> Inl TypeError))"

definition get_bookmarks :: "builtins \<Rightarrow> json option \<Rightarrow> store \<Rightarrow> response" where
  "get_bookmarks B tag bookmarks =
     (case tag of
        None \<Rightarrow> Success 200 (DList bookmarks)
      | Some t \<Rightarrow>
          if truthy (Some t) then
            (case filter_js (tag_matches B t) bookmarks of
               Inl e \<Rightarrow> Failure 500 ''Internal server error''
             | Inr result \<Rightarrow> Success 200 (DList result))
          else Success 200 (DList bookmarks))"

subsection \<open>Metadata\<close>

text \<open>
  What the network did is an input: either something in the body of \<open>fetchMetadata\<close>
  threw (the import, the request, its timeout, reading the text), or the page was read and
  the regular expression for the title element was matched against it, with the text of its
  group 1 or no match.
\<close>

datatype fetch_outcome =
    Threw
  | Fetched "string option"

text \<open>\<open>fetchMetadata\<close> returns the trimmed title, or \<open>null\<close> (here \<open>None\<close>) when it is
  empty, when nothing matched and when something threw.\<close>

definition fetchMetadata :: "builtins \<Rightarrow> fetch_outcome \<Rightarrow> string option" where
  "fetchMetadata B outcome =
     (case outcome of
        Threw \<Rightarrow> None
      | Fetched titleMatch \<Rightarrow>
          (let title = (case titleMatch of Some g \<Rightarrow> trim B g | None \<Rightarrow> [])
           in if title \<noteq> [] then Some title else None))"

definition get_metadata :: "builtins \<Rightarrow> json option \<Rightarrow> fetch_outcome \<Rightarrow> response" where
  "get_metadata B url outcome =
     (case url of
        None \<Rightarrow> Failure 400 ''Valid URL is required''
      | Some u \<Rightarrow>
          if \<not> truthy (Some u) \<or> \<not> isValidUrl B u then Failure 400 ''Valid URL is required''
          else (case fetchMetadata B outcome of
                  Some title \<Rightarrow>
                    Success 200 (DTitle (JStr (if title \<noteq> [] then title
                                               else ''Unable to fetch title'')))
                | None \<Rightarrow> Success 200 (DTitle (JStr ''Unable to fetch title''))))"

section \<open>The seeded collection and the reachable stores\<close>

text \<open>The module starts with five bookmarks (lines 20-61); their identifiers and
  timestamps are generated, \<open>uuid k\<close> and \<open>time k\<close> for the \<open>k\<close>-th.\<close>

definition seed ::
  "string \<Rightarrow> string \<Rightarrow> string \<Rightarrow> string \<Rightarrow> string list \<Rightarrow> string \<Rightarrow> bookmark" where
  "seed i u t d ts c =
     \<lparr> b_id = i, b_url = Some (JStr u), b_title = Some (JStr t),
       b_description = Some (JStr d), b_tags = Some (JArr (map JStr ts)), b_createdAt = c \<rparr>"

definition seed_tags :: "string list list" where
  "seed_tags =
     [[''react'', ''javascript'', ''frontend''],
      [''nodejs'', ''javascript'', ''backend''],
      [''css'', ''tailwind'', ''frontend''],
      [''express'', ''nodejs'', ''backend''],
      [''vite'', ''build-tool'', ''frontend'']]"

definition initial_bookmarks :: "(nat \<Rightarrow> string) \<Rightarrow> (nat \<Rightarrow> string) \<Rightarrow> store" where
  "initial_bookmarks uuid time =
     [seed (uuid 0) ''https://react.dev'' ''React Documentation''
        ''Official React documentation and tutorials'' (seed_tags ! 0) (time 0),
      seed (uuid 1) ''https://nodejs.org'' ''Node.js''
        ''JavaScript runtime built on Chrome's V8 engine'' (seed_tags ! 1) (time 1),
      seed (uuid 2) ''https://tailwindcss.com'' ''Tailwind CSS''
        ''A utility-first CSS framework'' (seed_tags ! 2) (time 2),
      seed (uuid 3) ''https://expressjs.com'' ''Express.js''
        ''Fast, unopinionated web framework for Node.js'' (seed_tags ! 3) (time 3),
      seed (uuid 4) ''https://vitejs.dev'' ''Vite''
        ''Next generation frontend tooling'' (seed_tags ! 4) (time 4)]"

text \<open>The stores that the three mutating handlers can produce from the seeded collection,
  whatever their arguments.\<close>

inductive reachable :: "builtins \<Rightarrow> store \<Rightarrow> bool" for B :: builtins where
  seeded: "reachable B (initial_bookmarks uuid time)"
| created: "reachable B st \<Longrightarrow> reachable B (snd (post_bookmarks B newid now p st))"
| updated: "reachable B st \<Longrightarrow> reachable B (snd (put_bookmark B ident p st))"
| deleted: "reachable B st \<Longrightarrow> reachable B (snd (delete_bookmark ident st))"

text \<open>A tag equals its own lowercase form; a \<open>tags\<close> property, when there is one, is an
  array of at most five such tags.\<close>

fun tag_lowercase :: "builtins \<Rightarrow> json \<Rightarrow> bool" where
  "tag_lowercase B (JStr s) = (s = toLowerCase B s)"
| "tag_lowercase B v = False"

definition tags_ok :: "builtins \<Rightarrow> json option \<Rightarrow> bool" where
  "tags_ok B tags =
     (case tags of
        None \<Rightarrow> True
      | Some (JArr ts) \<Rightarrow> length ts \<le> 5 \<and> list_all (tag_lowercase B) ts
      | Some v \<Rightarrow> False)"

definition tags_invariant :: "builtins \<Rightarrow> store \<Rightarrow> bool" where
  "tags_invariant B st = list_all (\<lambda>b. tags_ok B (b_tags b)) st"

text \<open>The runtime's \<open>toLowerCase\<close> leaves the tags of the seeded bookmarks as they are.\<close>

definition fixes_seed_tags :: "builtins \<Rightarrow> bool" where
  "fixes_seed_tags B = list_all (list_all (\<lambda>t. toLowerCase B t = t)) seed_tags"

text \<open>The data model's type of the \<open>tags\<close> property: absent, or an array.\<close>

definition tags_array_or_absent :: "bookmark \<Rightarrow> bool" where
  "tags_array_or_absent b = (case b_tags b of None \<Rightarrow> True | Some (JArr ts) \<Rightarrow> True | Some v \<Rightarrow> False)"

text \<open>The bookmarks that the tag filter of section 4.2 selects: those whose \<open>tags\<close>
  sequence contains the value.\<close>

definition has_tag :: "string \<Rightarrow> bookmark \<Rightarrow> bool" where
  "has_tag x b = (case b_tags b of Some (JArr ts) \<Rightarrow> JStr x \<in> set ts | _ \<Rightarrow> False)"

section \<open>The validator of section 4.1, from its words\<close>

text \<open>
  The rules of section 4.1 in create mode, over payloads of the declared shape: \<open>url\<close>,
  \<open>title\<close> and \<open>description\<close> strings when present, \<open>tags\<close> any value, the
  elements of an array of tags strings. A required field that is present and empty is
  reported as required (the data model asks for non-empty strings, and rule 1 says that
  the update path alone leaves the emptiness of \<open>url\<close> unchecked).
  \<open>ref_validate_create\<close> takes the test that decides whether \<open>tags\<close> is present:
  section 4.1 checks \<open>tags\<close> "only when present", which is \<open>spec_validate_create\<close>.
\<close>

fun is_string :: "json \<Rightarrow> bool" where
  "is_string (JStr s) = True"
| "is_string v = False"

definition string_or_absent :: "json option \<Rightarrow> bool" where
  "string_or_absent v = (case v of None \<Rightarrow> True | Some x \<Rightarrow> is_string x)"

definition strings_if_array :: "json option \<Rightarrow> bool" where
  "strings_if_array v = (case v of Some (JArr ts) \<Rightarrow> list_all is_string ts | _ \<Rightarrow> True)"

definition declared_shape :: "payload \<Rightarrow> bool" where
  "declared_shape p =
     (string_or_absent (p_url p) \<and> string_or_absent (p_title p)
      \<and> string_or_absent (p_description p) \<and> strings_if_array (p_tags p))"

fun text_length :: "json \<Rightarrow> nat" where
  "text_length (JStr s) = length s"
| "text_length v = 0"

fun lowercased :: "builtins \<Rightarrow> json \<Rightarrow> json" where
  "lowercased B (JStr s) = JStr (toLowerCase B s)"
| "lowercased B v = v"

definition ref_url :: "builtins \<Rightarrow> json option \<Rightarrow> string list" where
  "ref_url B url =
     (case url of
        None \<Rightarrow> [''URL is required'']
      | Some v \<Rightarrow>
          if v = JStr [] then [''URL is required'']
          else if \<not> URL_parses B v then [''URL must be valid'']
          else [])"

definition ref_title :: "json option \<Rightarrow> string list" where
  "ref_title title =
     (case title of
        None \<Rightarrow> [''Title is required'']
      | Some v \<Rightarrow>
          if v = JStr [] then [''Title is required'']
          else if 200 < text_length v then [''Title must be max 200 characters'']
          else [])"

definition ref_description :: "json option \<Rightarrow> string list" where
  "ref_description description =
     (case description of
        None \<Rightarrow> []
      | Some v \<Rightarrow>
          if v \<noteq> JStr [] \<and> 500 < text_length v
          then [''Description must be max 500 characters'']
          else [])"

definition ref_tag_checks :: "builtins \<Rightarrow> json \<Rightarrow> string list" where
  "ref_tag_checks B tags =
     (case tags of
        JArr ts \<Rightarrow>
          if 5 < length ts then [''Maximum 5 tags allowed'']
          else if list_ex (\<lambda>t. t \<noteq> lowercased B t) ts then [''Tags must be lowercase'']
          else []
      | _ \<Rightarrow> [''Tags must be an array''])"

definition ref_tags :: "(json option \<Rightarrow> bool) \<Rightarrow> builtins \<Rightarrow> json option \<Rightarrow> string list" where
  "ref_tags present B tags =
     (case tags of
        None \<Rightarrow> []
      | Some v \<Rightarrow> if present (Some v) then ref_tag_checks B v else [])"

definition ref_validate_create ::
  "(json option \<Rightarrow> bool) \<Rightarrow> builtins \<Rightarrow> payload \<Rightarrow> string list" where
  "ref_validate_create present B p =
     ref_url B (p_url p) @ ref_title (p_title p) @ ref_description (p_description p)
     @ ref_tags present B (p_tags p)"

definition spec_validate_create :: "builtins \<Rightarrow> payload \<Rightarrow> string list" where
  "spec_validate_create B p = ref_validate_create (\<lambda>v. v \<noteq> None) B p"

section \<open>An instance of the runtime for the examples\<close>

text \<open>
  The examples below are evaluated with this instance of the built-in operations. It lowers
  the letters A to Z, strips spaces, and accepts the strings that start with
  \<open>https://\<close> and go on, which is what the runtime does on the strings of the examples.
\<close>

fun lower_char :: "char \<Rightarrow> char" where
  "lower_char (Char b0 b1 b2 b3 b4 b5 b6 b7) =
     (if 65 \<le> (of_char (Char b0 b1 b2 b3 b4 b5 b6 b7) :: nat)
         \<and> (of_char (Char b0 b1 b2 b3 b4 b5 b6 b7) :: nat) \<le> 90
      then Char b0 b1 b2 b3 b4 True b6 b7
      else Char b0 b1 b2 b3 b4 b5 b6 b7)"

definition strip_spaces :: "string \<Rightarrow> string" where
  "strip_spaces s =
     rev (dropWhile (\<lambda>c. c = CHR '' '') (rev (dropWhile (\<lambda>c. c = CHR '' '') s)))"

definition https_url :: "json \<Rightarrow> bool" where
  "https_url v = (case v of JStr s \<Rightarrow> take 8 s = ''https://'' \<and> 8 < length s | _ \<Rightarrow> False)"

definition runtime :: builtins where
  "runtime =
     \<lparr> URL_parses = https_url, toLowerCase = map lower_char, trim = strip_spaces,
       gt_coerced = (\<lambda>v n. Some False) \<rparr>"

section \<open>Example payloads and stores\<close>

text \<open>The two bookmarks of the filter test of the test suite.\<close>

definition two_bookmarks :: store where
  "two_bookmarks =
     [seed ''1'' ''https://example.com'' ''Example'' ''first'' [''react'', ''javascript'']
        ''2024-01-01T00:00:00.000Z'',
      seed ''2'' ''https://test.com'' ''Test'' ''second'' [''nodejs'']
        ''2024-01-02T00:00:00.000Z'']"

text \<open>\<open>{"url": "https://example.com", "title": "Test", "tags": 0}\<close>\<close>

definition falsy_tags_payload :: payload where
  "falsy_tags_payload =
     \<lparr> p_url = Some (JStr ''https://example.com''), p_title = Some (JStr ''Test''),
       p_description = None, p_tags = Some (JNum 0) \<rparr>"

text \<open>\<open>{"url": "https://example.com", "title": "Test", "tags": ["a", 5]}\<close>\<close>

definition number_tag_payload :: payload where
  "number_tag_payload =
     \<lparr> p_url = Some (JStr ''https://example.com''), p_title = Some (JStr ''Test''),
       p_description = None, p_tags = Some (JArr [JStr ''a'', JNum 5]) \<rparr>"

text \<open>\<open>{"url": "not-a-valid-url", "tags": ["React", "JavaScript"]}\<close>\<close>

definition two_errors_payload :: payload where
  "two_errors_payload =
     \<lparr> p_url = Some (JStr ''not-a-valid-url''), p_title = None,
       p_description = None,
       p_tags = Some (JArr [JStr ''React'', JStr ''JavaScript'']) \<rparr>"

text \<open>\<open>{"url": "https://example.com", "title": "Test", "description": "", "tags": ["test"]}\<close>\<close>

definition empty_description_payload :: payload where
  "empty_description_payload =
     \<lparr> p_url = Some (JStr ''https://example.com''), p_title = Some (JStr ''Test''),
       p_description = Some (JStr []), p_tags = Some (JArr [JStr ''test'']) \<rparr>"

text \<open>\<open>{"tags": ["React"]}\<close>, \<open>{"tags": ["docs", "docs"]}\<close>, \<open>{"description": "x"}\<close>,
  \<open>{"url": "", "title": ""}\<close> and \<open>{"description": null}\<close>.\<close>

definition uppercase_tags_update :: payload where
  "uppercase_tags_update =
     \<lparr> p_url = None, p_title = None, p_description = None,
       p_tags = Some (JArr [JStr ''React'']) \<rparr>"

definition lowercase_tags_update :: payload where
  "lowercase_tags_update =
     \<lparr> p_url = None, p_title = None, p_description = None,
       p_tags = Some (JArr [JStr ''docs'', JStr ''docs'']) \<rparr>"

definition description_update :: payload where
  "description_update =
     \<lparr> p_url = None, p_title = None, p_description = Some (JStr ''x''), p_tags = None \<rparr>"

definition empty_url_title_update :: payload where
  "empty_url_title_update =
     \<lparr> p_url = Some (JStr []), p_title = Some (JStr []), p_description = None,
       p_tags = None \<rparr>"

definition null_description_update :: payload where
  "null_description_update =
     \<lparr> p_url = None, p_title = None, p_description = Some JNull, p_tags = None \<rparr>"

text \<open>Generated identifiers and timestamps for the seeded collection.\<close>

definition example_uuid :: "nat \<Rightarrow> string" where
  "example_uuid k = (if k = 0 then ''u0'' else ''u1'')"

definition example_time :: "nat \<Rightarrow> string" where
  "example_time k = ''2024-01-01T00:00:00.000Z''"

section \<open>Auxiliary facts\<close>

lemma runtime_simps:
  "URL_parses runtime = https_url" "toLowerCase runtime = map lower_char"
  "trim runtime = strip_spaces" "gt_coerced runtime = (\<lambda>v n. Some False)"
  by (simp_all add: runtime_def)

lemma example_url_valid:
  "truthy (Some (JStr ''https://example.com'')) \<and> isValidUrl runtime (JStr ''https://example.com'')"
  by (simp add: isValidUrl_def runtime_simps https_url_def)

lemma findIndex_None: "findIndex P xs = None \<longleftrightarrow> (\<forall>x\<in>set xs. \<not> P x)"
  by (induction xs) auto

lemma findIndex_Some: "findIndex P xs = Some i \<Longrightarrow> i < length xs \<and> P (xs ! i)"
  by (induction xs arbitrary: i) (auto split: if_splits)

lemma and_then_Inr:
  "and_then a b = Inr zs \<longleftrightarrow> (\<exists>xs ys. a = Inr xs \<and> b = Inr ys \<and> zs = xs @ ys)"
  by (auto simp: and_then_def split: sum.splits)

lemma and_then_Nil: "and_then a b = Inr [] \<longleftrightarrow> a = Inr [] \<and> b = Inr []"
  by (auto simp: and_then_def split: sum.splits)

text \<open>The exits of the two validating handlers.\<close>

lemma post_bookmarks_cases:
  "post_bookmarks B newid now p st = (Failure 500 ''Internal server error'', st)
   \<or> (\<exists>errors. errors \<noteq> [] \<and> validate_create B p = Inr errors
        \<and> post_bookmarks B newid now p st = (Failure 400 (join '', '' errors), st))
   \<or> (validate_create B p = Inr []
        \<and> post_bookmarks B newid now p st =
            (Success 201 (DBookmark (newBookmark newid now p)), st @ [newBookmark newid now p]))"
  by (auto simp: post_bookmarks_def split: sum.splits)

lemma put_bookmark_cases:
  "put_bookmark B ident p st = (Failure 404 ''Bookmark not found'', st)
   \<or> put_bookmark B ident p st = (Failure 500 ''Internal server error'', st)
   \<or> (\<exists>errors. errors \<noteq> [] \<and> validate_update B p = Inr errors
        \<and> put_bookmark B ident p st = (Failure 400 (join '', '' errors), st))
   \<or> (\<exists>i. findIndex (\<lambda>b. b_id b = ident) st = Some i \<and> validate_update B p = Inr []
        \<and> put_bookmark B ident p st =
            (Success 200 (DBookmark (updatedBookmark (st ! i) p)),
             st[i := updatedBookmark (st ! i) p]))"
  by (auto simp: put_bookmark_def split: sum.splits option.splits)

lemma length_gt_string: "length_gt B (JStr s) n = Inr (n < int (length s))"
  by (simp add: length_gt_def)

lemma check_length_string:
  "check_length B (JStr s) n msg = Inr (if n < int (length s) then [msg] else [])"
  by (simp add: check_length_def length_gt_string)

text \<open>Validation of the example payloads.\<close>

lemma validate_two_errors:
  "validate_create runtime two_errors_payload
     = Inr [''URL must be valid'', ''Title is required'', ''Tags must be lowercase'']"
  by (simp add: two_errors_payload_def validate_create_def and_then_def create_url_def
      create_title_def create_description_def create_tags_def isValidUrl_def runtime_simps
      https_url_def check_tags_def)

lemma validate_empty_description: "validate_create runtime empty_description_payload = Inr []"
  by (simp add: empty_description_payload_def validate_create_def and_then_def create_url_def
      create_title_def create_description_def create_tags_def isValidUrl_def runtime_simps
      https_url_def check_length_string check_tags_def)

lemma validate_uppercase_tags:
  "validate_update runtime uppercase_tags_update = Inr [''Tags must be lowercase'']"
  by (simp add: uppercase_tags_update_def validate_update_def and_then_def update_url_def
      update_title_def update_description_def update_tags_def check_tags_def runtime_simps)

lemma validate_lowercase_tags: "validate_update runtime lowercase_tags_update = Inr []"
  by (simp add: lowercase_tags_update_def validate_update_def and_then_def update_url_def
      update_title_def update_description_def update_tags_def check_tags_def runtime_simps)

lemma validate_description_update: "validate_update runtime description_update = Inr []"
  by (simp add: description_update_def validate_update_def and_then_def update_url_def
      update_title_def update_description_def update_tags_def check_length_string)

lemma validate_null_description: "validate_update runtime null_description_update = Inr []"
  by (simp add: null_description_update_def validate_update_def and_then_def update_url_def
      update_title_def update_description_def update_tags_def)

lemma find_in_two_bookmarks:
  "findIndex (\<lambda>b. b_id b = ''1'') two_bookmarks = Some 0"
  "findIndex (\<lambda>b. b_id b = ''2'') two_bookmarks = Some 1"
  "findIndex (\<lambda>b. b_id b = ''nope'') two_bookmarks = None"
  by (simp_all add: two_bookmarks_def seed_def)

section \<open>The create-mode validator\<close>

lemma some_not_lower_strings:
  "list_all is_string ts \<Longrightarrow> some_not_lower B ts = Inr (list_ex (\<lambda>t. t \<noteq> lowercased B t) ts)"
proof (induction ts)
  case Nil
  then show ?case by simp
next
  case (Cons t ts)
  then show ?case by (cases t) auto
qed

lemma create_url_ref: "string_or_absent u \<Longrightarrow> create_url B u = Inr (ref_url B u)"
  by (cases u; cases "the u")
     (auto simp: string_or_absent_def create_url_def ref_url_def isValidUrl_def)

lemma create_title_ref: "string_or_absent u \<Longrightarrow> create_title B u = Inr (ref_title u)"
  by (cases u; cases "the u")
     (auto simp: string_or_absent_def create_title_def ref_title_def check_length_string)

lemma create_description_ref:
  "string_or_absent u \<Longrightarrow> create_description B u = Inr (ref_description u)"
  by (cases u; cases "the u")
     (auto simp: string_or_absent_def create_description_def ref_description_def
        check_length_string)

lemma check_tags_ref:
  "strings_if_array (Some v) \<Longrightarrow> check_tags B v = Inr (ref_tag_checks B v)"
  by (cases v) (auto simp: strings_if_array_def check_tags_def ref_tag_checks_def
      some_not_lower_strings)

lemma create_tags_ref:
  "strings_if_array u \<Longrightarrow> create_tags B u = Inr (ref_tags truthy B u)"
  by (cases u) (auto simp: create_tags_def ref_tags_def check_tags_ref)

lemma validate_create_ref:
  "declared_shape p \<Longrightarrow> validate_create B p = Inr (ref_validate_create truthy B p)"
  by (simp add: declared_shape_def validate_create_def ref_validate_create_def
      create_url_ref create_title_ref create_description_ref create_tags_ref and_then_def)

text \<open>
  C1, as the code has it. For every payload of the declared shape, the messages of the
  create-mode validator are those of the rules of section 4.1 taken in the order url, title,
  description, tags, each field contributing whatever the others do, the tags field
  contributing the first of its three sub-checks that matches, with one difference:
  \<open>tags\<close> is checked only when it is present and truthy. The request is answered with
  status 400 and the messages joined by a comma and a space exactly when there is a
  message, and otherwise with status 201 and the new bookmark, appended to the store.
\<close>

theorem create_validator_refines_reference:
  assumes "declared_shape p"
  shows "validate_create B p = Inr (ref_validate_create truthy B p)
       \<and> post_bookmarks B newid now p st =
           (if ref_validate_create truthy B p = []
            then (Success 201 (DBookmark (newBookmark newid now p)),
                  st @ [newBookmark newid now p])
            else (Failure 400 (join '', '' (ref_validate_create truthy B p)), st))"
  using validate_create_ref [OF assms, of B]
  by (simp add: post_bookmarks_def)

text \<open>An instance: three fields in error give three messages, in the order of the fields.\<close>

theorem create_validator_refines_reference_witness:
  "declared_shape two_errors_payload
   \<and> validate_create runtime two_errors_payload
       = Inr [''URL must be valid'', ''Title is required'', ''Tags must be lowercase'']
   \<and> post_bookmarks runtime ''id-1'' ''2024-01-01T00:00:00.000Z'' two_errors_payload []
       = (Failure 400 ''URL must be valid, Title is required, Tags must be lowercase'', [])"
proof -
  have shape: "declared_shape two_errors_payload"
    by (simp add: declared_shape_def two_errors_payload_def string_or_absent_def
        strings_if_array_def)
  have ref: "ref_validate_create truthy runtime two_errors_payload
       = [''URL must be valid'', ''Title is required'', ''Tags must be lowercase'']"
    by (simp add: two_errors_payload_def ref_validate_create_def ref_url_def ref_title_def
        ref_description_def ref_tags_def ref_tag_checks_def runtime_simps https_url_def)
  show ?thesis
    using create_validator_refines_reference
      [OF shape, of runtime "''id-1''" "''2024-01-01T00:00:00.000Z''" "[]"] shape
    by (simp add: ref)
qed

text \<open>
  With \<open>tags\<close> present and not an array, section 4.1 reports "Tags must be an array"; for
  the value \<open>0\<close> the handler reports nothing and creates the bookmark.
\<close>

theorem create_validator_counterexample:
  "validate_create runtime falsy_tags_payload = Inr []
   \<and> spec_validate_create runtime falsy_tags_payload = [''Tags must be an array'']
   \<and> fst (post_bookmarks runtime ''id-1'' ''2024-01-01T00:00:00.000Z'' falsy_tags_payload [])
       = Success 201
           (DBookmark (newBookmark ''id-1'' ''2024-01-01T00:00:00.000Z'' falsy_tags_payload))"
  by (simp add: falsy_tags_payload_def validate_create_def and_then_def create_url_def
      create_title_def create_description_def create_tags_def isValidUrl_def runtime_simps
      https_url_def check_length_string spec_validate_create_def ref_validate_create_def
      ref_url_def ref_title_def ref_description_def ref_tags_def ref_tag_checks_def
      post_bookmarks_def)

text \<open>Outside the declared shape a check can throw: a tag that is a number has no
  \<open>toLowerCase\<close>, and the request is answered with status 500.\<close>

lemma number_tag_internal_error:
  "post_bookmarks runtime ''id-1'' ''2024-01-01T00:00:00.000Z'' number_tag_payload []
     = (Failure 500 ''Internal server error'', [])"
  by (simp add: number_tag_payload_def post_bookmarks_def validate_create_def and_then_def
      create_url_def create_title_def create_description_def create_tags_def isValidUrl_def
      runtime_simps https_url_def check_length_string check_tags_def)

section \<open>Failed validation\<close>

text \<open>
  C2. For every store and every payload, when the create handler or the update handler
  answers with status 400, the store after the call is the store before the call.
\<close>

theorem failed_validation_mutates_nothing:
  "(fst (post_bookmarks B newid now p st) = Failure 400 msg
      \<longrightarrow> snd (post_bookmarks B newid now p st) = st)
   \<and> (fst (put_bookmark B ident q st) = Failure 400 msg'
      \<longrightarrow> snd (put_bookmark B ident q st) = st)"
  using post_bookmarks_cases [of B newid now p st] put_bookmark_cases [of B ident q st]
  by auto

theorem failed_validation_mutates_nothing_witness:
  "fst (post_bookmarks runtime ''3'' ''2024-01-03T00:00:00.000Z'' two_errors_payload two_bookmarks)
     = Failure 400 ''URL must be valid, Title is required, Tags must be lowercase''
   \<and> snd (post_bookmarks runtime ''3'' ''2024-01-03T00:00:00.000Z'' two_errors_payload
            two_bookmarks) = two_bookmarks
   \<and> fst (put_bookmark runtime ''1'' uppercase_tags_update two_bookmarks)
       = Failure 400 ''Tags must be lowercase''
   \<and> snd (put_bookmark runtime ''1'' uppercase_tags_update two_bookmarks) = two_bookmarks"
proof -
  have a: "fst (post_bookmarks runtime ''3'' ''2024-01-03T00:00:00.000Z'' two_errors_payload
                  two_bookmarks)
     = Failure 400 ''URL must be valid, Title is required, Tags must be lowercase''"
    by (simp add: post_bookmarks_def validate_two_errors)
  have b: "fst (put_bookmark runtime ''1'' uppercase_tags_update two_bookmarks)
       = Failure 400 ''Tags must be lowercase''"
    by (simp add: put_bookmark_def validate_uppercase_tags find_in_two_bookmarks)
  from failed_validation_mutates_nothing
    [of runtime "''3''" "''2024-01-03T00:00:00.000Z''" two_errors_payload two_bookmarks
      "''URL must be valid, Title is required, Tags must be lowercase''"
      "''1''" uppercase_tags_update "''Tags must be lowercase''"] a b
  show ?thesis by simp
qed

section \<open>Partial update\<close>

lemma updatedBookmark_frame:
  "b_id (updatedBookmark old p) = b_id old \<and> b_createdAt (updatedBookmark old p) = b_createdAt old"
  by (simp add: updatedBookmark_def)

lemma map_update_same: "i < length xs \<Longrightarrow> f y = f (xs ! i) \<Longrightarrow> map f (xs[i := y]) = map f xs"
  by (simp add: map_update list_update_same_conv)

lemma put_bookmark_ids:
  "map b_id (snd (put_bookmark B ident p st)) = map b_id st
   \<and> map b_createdAt (snd (put_bookmark B ident p st)) = map b_createdAt st"
  using put_bookmark_cases [of B ident p st]
  by (auto dest!: findIndex_Some simp: map_update_same updatedBookmark_frame)

text \<open>
  C3. When the update of the bookmark found at index \<open>i\<close> succeeds and returns \<open>b'\<close>, the
  store is the old store with \<open>b'\<close> at index \<open>i\<close>; each of url, title, description and tags
  of \<open>b'\<close> is the payload's value if the payload supplies one and the old value if not; id
  and createdAt of \<open>b'\<close> are the old ones. Whatever the payload and the outcome, an
  update leaves the id and the createdAt of every stored bookmark as they were.
\<close>

theorem update_replaces_supplied_fields_only:
  "(findIndex (\<lambda>b. b_id b = ident) st = Some i
      \<and> fst (put_bookmark B ident p st) = Success 200 (DBookmark b')
    \<longrightarrow> i < length st
        \<and> snd (put_bookmark B ident p st) = st[i := b']
        \<and> b_url b' = (case p_url p of None \<Rightarrow> b_url (st ! i) | Some v \<Rightarrow> Some v)
        \<and> b_title b' = (case p_title p of None \<Rightarrow> b_title (st ! i) | Some v \<Rightarrow> Some v)
        \<and> b_description b' =
            (case p_description p of None \<Rightarrow> b_description (st ! i) | Some v \<Rightarrow> Some v)
        \<and> b_tags b' = (case p_tags p of None \<Rightarrow> b_tags (st ! i) | Some v \<Rightarrow> Some v)
        \<and> b_id b' = b_id (st ! i)
        \<and> b_createdAt b' = b_createdAt (st ! i))
   \<and> map b_id (snd (put_bookmark B ident p st)) = map b_id st
   \<and> map b_createdAt (snd (put_bookmark B ident p st)) = map b_createdAt st"
proof -
  have "i < length st
        \<and> snd (put_bookmark B ident p st) = st[i := b']
        \<and> b_url b' = (case p_url p of None \<Rightarrow> b_url (st ! i) | Some v \<Rightarrow> Some v)
        \<and> b_title b' = (case p_title p of None \<Rightarrow> b_title (st ! i) | Some v \<Rightarrow> Some v)
        \<and> b_description b' =
            (case p_description p of None \<Rightarrow> b_description (st ! i) | Some v \<Rightarrow> Some v)
        \<and> b_tags b' = (case p_tags p of None \<Rightarrow> b_tags (st ! i) | Some v \<Rightarrow> Some v)
        \<and> b_id b' = b_id (st ! i)
        \<and> b_createdAt b' = b_createdAt (st ! i)"
    if ix: "findIndex (\<lambda>b. b_id b = ident) st = Some i"
      and ok: "fst (put_bookmark B ident p st) = Success 200 (DBookmark b')"
  proof -
    from ok ix have b': "b' = updatedBookmark (st ! i) p"
      and st': "snd (put_bookmark B ident p st) = st[i := b']"
      by (auto simp: put_bookmark_def split: sum.splits if_splits)
    from ix have "i < length st" by (simp add: findIndex_Some)
    with b' st' show ?thesis
      by (auto simp: updatedBookmark_def split: option.splits)
  qed
  with put_bookmark_ids [of B ident p st] show ?thesis by blast
qed

text \<open>The partial update of section 8: only the description of the second bookmark
  changes.\<close>

theorem update_replaces_supplied_fields_only_witness:
  "findIndex (\<lambda>b. b_id b = ''2'') two_bookmarks = Some 1
   \<and> fst (put_bookmark runtime ''2'' description_update two_bookmarks)
       = Success 200 (DBookmark ((two_bookmarks ! 1) \<lparr> b_description := Some (JStr ''x'') \<rparr>))
   \<and> snd (put_bookmark runtime ''2'' description_update two_bookmarks)
       = two_bookmarks[1 := (two_bookmarks ! 1) \<lparr> b_description := Some (JStr ''x'') \<rparr>]
   \<and> map b_id (snd (put_bookmark runtime ''2'' description_update two_bookmarks))
       = [''1'', ''2'']"
proof -
  have f: "p_url description_update = None" "p_title description_update = None"
    "p_description description_update = Some (JStr ''x'')" "p_tags description_update = None"
    by (simp_all add: description_update_def)
  have ok: "fst (put_bookmark runtime ''2'' description_update two_bookmarks)
       = Success 200 (DBookmark ((two_bookmarks ! 1) \<lparr> b_description := Some (JStr ''x'') \<rparr>))"
    by (simp add: put_bookmark_def find_in_two_bookmarks validate_description_update
        updatedBookmark_def f)
  have ids: "map b_id two_bookmarks = [''1'', ''2'']"
    by (simp add: two_bookmarks_def seed_def)
  from update_replaces_supplied_fields_only
    [of "''2''" two_bookmarks 1 runtime description_update
      "(two_bookmarks ! 1) \<lparr> b_description := Some (JStr ''x'') \<rparr>"]
    find_in_two_bookmarks(2) ok
  have st': "snd (put_bookmark runtime ''2'' description_update two_bookmarks)
       = two_bookmarks[1 := (two_bookmarks ! 1) \<lparr> b_description := Some (JStr ''x'') \<rparr>]"
    and same: "map b_id (snd (put_bookmark runtime ''2'' description_update two_bookmarks))
       = map b_id two_bookmarks"
    by blast+
  show ?thesis
    by (intro conjI) (rule find_in_two_bookmarks(2), rule ok, rule st', simp only: same ids)
qed

section \<open>Listing\<close>

lemma filter_js_total:
  "(\<forall>x\<in>set xs. f x = Inr (P x)) \<Longrightarrow> filter_js f xs = Inr (filter P xs)"
  by (induction xs) auto

lemma tag_matches_has_tag:
  "tags_array_or_absent b \<Longrightarrow> tag_matches B (JStr t) b = Inr (has_tag (toLowerCase B t) b)"
  by (cases "b_tags b"; cases "the (b_tags b)")
     (auto simp: tags_array_or_absent_def tag_matches_def has_tag_def)

text \<open>
  C4, as the code has it. For every store whose bookmarks have an array of tags or none:
  with no filter, and with the empty string as filter, the list is the whole collection in
  its order; with a non-empty string \<open>t\<close> as filter the list is, in collection order,
  exactly the bookmarks whose tags contain the lowercased \<open>t\<close>.
\<close>

theorem list_filters_by_lowercased_tag:
  assumes "list_all tags_array_or_absent st"
  shows "get_bookmarks B None st = Success 200 (DList st)
       \<and> get_bookmarks B (Some (JStr [])) st = Success 200 (DList st)
       \<and> (t \<noteq> [] \<longrightarrow>
            get_bookmarks B (Some (JStr t)) st
              = Success 200 (DList (filter (has_tag (toLowerCase B t)) st)))"
proof -
  from assms have "\<forall>b\<in>set st. tag_matches B (JStr t) b = Inr (has_tag (toLowerCase B t) b)"
    by (simp add: list_all_iff tag_matches_has_tag)
  then have "filter_js (tag_matches B (JStr t)) st = Inr (filter (has_tag (toLowerCase B t)) st)"
    by (rule filter_js_total)
  then show ?thesis
    by (simp add: get_bookmarks_def)
qed

theorem list_filters_by_lowercased_tag_witness:
  "list_all tags_array_or_absent two_bookmarks
   \<and> get_bookmarks runtime (Some (JStr ''React'')) two_bookmarks
       = Success 200 (DList [two_bookmarks ! 0])
   \<and> get_bookmarks runtime None two_bookmarks = Success 200 (DList two_bookmarks)"
proof -
  have arr: "list_all tags_array_or_absent two_bookmarks"
    by (simp add: two_bookmarks_def seed_def tags_array_or_absent_def)
  have sel: "filter (has_tag (toLowerCase runtime ''React'')) two_bookmarks = [two_bookmarks ! 0]"
    by (simp add: two_bookmarks_def seed_def has_tag_def runtime_simps)
  show ?thesis
    using list_filters_by_lowercased_tag [OF arr, of runtime "''React''"] arr
    by (simp add: sel)
qed

text \<open>The filter value \<open>""\<close> (the request \<open>GET /bookmarks?tag=\<close>): no bookmark has the
  tag \<open>""\<close>, and the handler returns both bookmarks.\<close>

theorem list_empty_filter_counterexample:
  "get_bookmarks runtime (Some (JStr [])) two_bookmarks = Success 200 (DList two_bookmarks)
   \<and> filter (has_tag (toLowerCase runtime [])) two_bookmarks = []"
  by (simp add: get_bookmarks_def two_bookmarks_def seed_def has_tag_def runtime_simps)

section \<open>Create, then list\<close>

text \<open>
  C5, as the code has it. For every payload that the create-mode validator accepts and
  every generated id that no stored bookmark has, the create handler returns the new record
  and the unfiltered list after it is the store, in which exactly one record has the new
  id: its url and title are the payload's, its description and its tags are the payload's
  when that value is truthy and are absent when the payload's value is absent or falsy, and
  its id and createdAt are the generated ones.
\<close>

theorem create_then_list:
  assumes "validate_create B p = Inr []" and "newid \<notin> b_id ` set st"
  shows "fst (post_bookmarks B newid now p st)
           = Success 201 (DBookmark
               \<lparr> b_id = newid, b_url = p_url p, b_title = p_title p,
                 b_description = (if truthy (p_description p) then p_description p else None),
                 b_tags = (if truthy (p_tags p) then p_tags p else None),
                 b_createdAt = now \<rparr>)
       \<and> get_bookmarks B None (snd (post_bookmarks B newid now p st))
           = Success 200 (DList (snd (post_bookmarks B newid now p st)))
       \<and> filter (\<lambda>b. b_id b = newid) (snd (post_bookmarks B newid now p st))
           = [\<lparr> b_id = newid, b_url = p_url p, b_title = p_title p,
                b_description = (if truthy (p_description p) then p_description p else None),
                b_tags = (if truthy (p_tags p) then p_tags p else None),
                b_createdAt = now \<rparr>]"
proof -
  from assms(2) have "filter (\<lambda>b. b_id b = newid) st = []"
    by (auto simp: filter_empty_conv)
  with assms(1) show ?thesis
    by (simp add: post_bookmarks_def newBookmark_def or_undefined_def get_bookmarks_def)
qed

theorem create_then_list_witness:
  "validate_create runtime empty_description_payload = Inr []
   \<and> ''3'' \<notin> b_id ` set two_bookmarks
   \<and> filter (\<lambda>b. b_id b = ''3'')
       (snd (post_bookmarks runtime ''3'' ''2024-01-03T00:00:00.000Z''
               empty_description_payload two_bookmarks))
     = [\<lparr> b_id = ''3'', b_url = Some (JStr ''https://example.com''),
          b_title = Some (JStr ''Test''), b_description = None,
          b_tags = Some (JArr [JStr ''test'']),
          b_createdAt = ''2024-01-03T00:00:00.000Z'' \<rparr>]"
proof -
  have fresh: "''3'' \<notin> b_id ` set two_bookmarks"
    by (simp add: two_bookmarks_def seed_def)
  show ?thesis
    using create_then_list [OF validate_empty_description fresh, of "''2024-01-03T00:00:00.000Z''"]
      fresh validate_empty_description
    by (simp add: empty_description_payload_def)
qed

text \<open>A valid payload with the description \<open>""\<close>: the stored record has no description.\<close>

theorem create_then_list_counterexample:
  "validate_create runtime empty_description_payload = Inr []
   \<and> p_description empty_description_payload = Some (JStr [])
   \<and> map b_description
       (snd (post_bookmarks runtime ''1'' ''2024-01-01T00:00:00.000Z''
               empty_description_payload [])) = [None]"
  by (simp add: validate_empty_description post_bookmarks_def newBookmark_def or_undefined_def)
     (simp add: empty_description_payload_def)

section \<open>The invariant of the stored tags\<close>

lemma some_not_lower_False:
  "some_not_lower B ts = Inr False \<Longrightarrow> list_all (tag_lowercase B) ts"
proof (induction ts)
  case Nil
  then show ?case by simp
next
  case (Cons t ts)
  then show ?case by (cases t) (auto split: if_splits)
qed

lemma check_tags_accepts: "check_tags B v = Inr [] \<Longrightarrow> tags_ok B (Some v)"
  by (cases v)
     (auto simp: check_tags_def tags_ok_def some_not_lower_False split: if_splits sum.splits)

lemma newBookmark_tags_ok:
  assumes "validate_create B p = Inr []"
  shows "tags_ok B (b_tags (newBookmark newid now p))"
proof -
  from assms have accepted: "create_tags B (p_tags p) = Inr []"
    by (simp add: validate_create_def and_then_Nil)
  show ?thesis
  proof (cases "truthy (p_tags p)")
    case True
    with accepted show ?thesis
      by (cases "p_tags p")
         (auto simp: create_tags_def newBookmark_def or_undefined_def check_tags_accepts)
  next
    case False
    then show ?thesis
      by (simp add: newBookmark_def or_undefined_def tags_ok_def)
  qed
qed

lemma updatedBookmark_tags_ok:
  assumes "validate_update B p = Inr []" and "tags_ok B (b_tags old)"
  shows "tags_ok B (b_tags (updatedBookmark old p))"
proof -
  from assms(1) have "update_tags B (p_tags p) = Inr []"
    by (simp add: validate_update_def and_then_Nil)
  with assms(2) show ?thesis
    by (cases "p_tags p") (auto simp: update_tags_def updatedBookmark_def check_tags_accepts)
qed

lemma post_preserves_tags:
  assumes "tags_invariant B st"
  shows "tags_invariant B (snd (post_bookmarks B newid now p st))"
  using post_bookmarks_cases [of B newid now p st] assms
  by (auto simp: tags_invariant_def newBookmark_tags_ok)

lemma put_preserves_tags:
  assumes "tags_invariant B st"
  shows "tags_invariant B (snd (put_bookmark B ident p st))"
proof -
  have "tags_invariant B (st[i := updatedBookmark (st ! i) p])"
    if "findIndex (\<lambda>b. b_id b = ident) st = Some i" and ok: "validate_update B p = Inr []" for i
  proof -
    from that(1) have i: "i < length st" by (simp add: findIndex_Some)
    with assms have "tags_ok B (b_tags (st ! i))"
      by (simp add: tags_invariant_def list_all_length)
    with ok have "tags_ok B (b_tags (updatedBookmark (st ! i) p))"
      by (rule updatedBookmark_tags_ok)
    with assms show ?thesis
      by (auto simp: tags_invariant_def list_all_iff dest!: subsetD [OF set_update_subset_insert])
  qed
  with put_bookmark_cases [of B ident p st] assms show ?thesis
    by auto
qed

lemma delete_preserves_tags:
  assumes "tags_invariant B st"
  shows "tags_invariant B (snd (delete_bookmark ident st))"
  using assms
  by (auto simp: delete_bookmark_def tags_invariant_def list_all_iff
      split: option.splits dest: in_set_takeD in_set_dropD)

lemma seed_tags_ok:
  "list_all (\<lambda>t. toLowerCase B t = t) ts \<Longrightarrow> length ts \<le> 5
   \<Longrightarrow> tags_ok B (b_tags (seed i u t d ts c))"
  by (auto simp: seed_def tags_ok_def list_all_iff)

lemma initial_tags:
  assumes "fixes_seed_tags B"
  shows "tags_invariant B (initial_bookmarks uuid time)"
proof -
  from assms have "list_all (\<lambda>t. toLowerCase B t = t) (seed_tags ! k)" if "k < 5" for k
    using that by (simp add: fixes_seed_tags_def list_all_length seed_tags_def)
  moreover have "length (seed_tags ! k) \<le> 5" if "k < 5" for k
    using that by (auto simp: seed_tags_def less_Suc_eq numeral_eq_Suc)
  ultimately show ?thesis
    by (simp add: tags_invariant_def initial_bookmarks_def seed_tags_ok)
qed

lemma runtime_fixes_seed_tags: "fixes_seed_tags runtime"
  by (simp add: fixes_seed_tags_def seed_tags_def runtime_simps)

text \<open>
  C6. In every store that a sequence of create, update and delete requests produces from
  the seeded collection, every bookmark that has tags has an array of at most five tags,
  each a string equal to its own lowercase form. (The runtime's \<open>toLowerCase\<close> leaves the
  fifteen seeded tags as they are.)
\<close>

theorem stored_tags_lowercase_invariant:
  assumes "reachable B st" and "fixes_seed_tags B"
  shows "tags_invariant B st"
  using assms
proof (induction rule: reachable.induct)
  case (seeded uuid time)
  then show ?case by (rule initial_tags)
next
  case (created st newid now p)
  then show ?case by (simp add: post_preserves_tags)
next
  case (updated st ident p)
  then show ?case by (simp add: put_preserves_tags)
next
  case (deleted st ident)
  then show ?case by (simp add: delete_preserves_tags)
qed

text \<open>An instance: on the seeded collection, an update with the tag \<open>React\<close> is refused and
  an update with the tags \<open>docs, docs\<close> is stored.\<close>

theorem stored_tags_lowercase_invariant_witness:
  "reachable runtime
     (snd (put_bookmark runtime ''u0'' lowercase_tags_update
        (snd (put_bookmark runtime ''u1'' uppercase_tags_update
           (initial_bookmarks example_uuid example_time)))))
   \<and> fixes_seed_tags runtime
   \<and> map b_tags
       (snd (put_bookmark runtime ''u0'' lowercase_tags_update
          (snd (put_bookmark runtime ''u1'' uppercase_tags_update
             (initial_bookmarks example_uuid example_time)))))
     = [Some (JArr [JStr ''docs'', JStr ''docs'']),
        Some (JArr [JStr ''nodejs'', JStr ''javascript'', JStr ''backend'']),
        Some (JArr [JStr ''css'', JStr ''tailwind'', JStr ''frontend'']),
        Some (JArr [JStr ''express'', JStr ''nodejs'', JStr ''backend'']),
        Some (JArr [JStr ''vite'', JStr ''build-tool'', JStr ''frontend''])]
   \<and> tags_invariant runtime
       (snd (put_bookmark runtime ''u0'' lowercase_tags_update
          (snd (put_bookmark runtime ''u1'' uppercase_tags_update
             (initial_bookmarks example_uuid example_time)))))"
proof -
  let ?init = "initial_bookmarks example_uuid example_time"
  let ?st1 = "snd (put_bookmark runtime ''u1'' uppercase_tags_update ?init)"
  let ?st2 = "snd (put_bookmark runtime ''u0'' lowercase_tags_update ?st1)"
  have r: "reachable runtime ?st2"
    by (intro reachable.updated reachable.seeded)
  have fields: "p_url lowercase_tags_update = None" "p_title lowercase_tags_update = None"
    "p_description lowercase_tags_update = None"
    "p_tags lowercase_tags_update = Some (JArr [JStr ''docs'', JStr ''docs''])"
    by (simp_all add: lowercase_tags_update_def)
  have st1: "?st1 = ?init"
    by (simp add: put_bookmark_def validate_uppercase_tags initial_bookmarks_def seed_def
        example_uuid_def)
  have tags: "map b_tags ?st2
     = [Some (JArr [JStr ''docs'', JStr ''docs'']),
        Some (JArr [JStr ''nodejs'', JStr ''javascript'', JStr ''backend'']),
        Some (JArr [JStr ''css'', JStr ''tailwind'', JStr ''frontend'']),
        Some (JArr [JStr ''express'', JStr ''nodejs'', JStr ''backend'']),
        Some (JArr [JStr ''vite'', JStr ''build-tool'', JStr ''frontend''])]"
    unfolding st1
    by (simp add: put_bookmark_def validate_lowercase_tags initial_bookmarks_def seed_def
        seed_tags_def updatedBookmark_def fields example_uuid_def)
  from stored_tags_lowercase_invariant [OF r runtime_fixes_seed_tags] r runtime_fixes_seed_tags tags
  show ?thesis by simp
qed

section \<open>Metadata\<close>

text \<open>
  C7, as the code has it. For a url that is truthy and valid, when the fetch throws, when
  the page has no title element and when the title is empty after trimming, the metadata
  handler answers with status 200, success, and the title "Unable to fetch title": the
  failure is not passed on as an error response, and the title is never null.
\<close>

theorem metadata_failure_placeholder:
  "truthy (Some u) \<and> isValidUrl B u \<longrightarrow>
     get_metadata B (Some u) Threw = Success 200 (DTitle (JStr ''Unable to fetch title''))
   \<and> get_metadata B (Some u) (Fetched None)
        = Success 200 (DTitle (JStr ''Unable to fetch title''))
   \<and> (trim B g = [] \<longrightarrow>
        get_metadata B (Some u) (Fetched (Some g))
          = Success 200 (DTitle (JStr ''Unable to fetch title'')))"
  by (simp add: get_metadata_def fetchMetadata_def)

theorem metadata_failure_placeholder_witness:
  "truthy (Some (JStr ''https://example.com''))
   \<and> isValidUrl runtime (JStr ''https://example.com'')
   \<and> trim runtime ''   '' = []
   \<and> get_metadata runtime (Some (JStr ''https://example.com'')) (Fetched None)
       = Success 200 (DTitle (JStr ''Unable to fetch title''))
   \<and> get_metadata runtime (Some (JStr ''https://example.com'')) (Fetched (Some ''   ''))
       = Success 200 (DTitle (JStr ''Unable to fetch title''))"
proof -
  have t: "trim runtime ''   '' = []"
    by (simp add: runtime_simps strip_spaces_def)
  from metadata_failure_placeholder [of "JStr ''https://example.com''" runtime "''   ''"]
    example_url_valid t
  show ?thesis by simp
qed

text \<open>The fetch throws: the title of the response is not null.\<close>

theorem metadata_failure_counterexample:
  "get_metadata runtime (Some (JStr ''https://example.com'')) Threw \<noteq> Success 200 (DTitle JNull)"
  using example_url_valid by (simp add: get_metadata_def fetchMetadata_def)

section \<open>The url on update\<close>

lemma update_url_messages:
  "update_url B u = Inr (case u of None \<Rightarrow> []
     | Some v \<Rightarrow> if isValidUrl B v then [] else [''URL must be valid''])"
  by (simp add: update_url_def split: option.splits)

lemma check_tags_messages:
  "check_tags B v = Inr ms \<Longrightarrow>
     set ms \<subseteq> {''Tags must be an array'', ''Maximum 5 tags allowed'', ''Tags must be lowercase''}"
  by (cases v) (auto simp: check_tags_def split: if_splits sum.splits)

lemma check_length_messages: "check_length B v n msg = Inr ms \<Longrightarrow> set ms \<subseteq> {msg}"
  by (auto simp: check_length_def split: if_splits sum.splits)

lemma update_title_messages:
  "update_title B u = Inr ms \<Longrightarrow>
     set ms \<subseteq> {''Title is required'', ''Title must be max 200 characters''}"
  by (cases u) (auto simp: update_title_def split: if_splits dest!: check_length_messages)

lemma update_description_messages:
  "update_description B u = Inr ms \<Longrightarrow> set ms \<subseteq> {''Description must be max 500 characters''}"
  by (cases u) (auto simp: update_description_def split: if_splits dest!: check_length_messages)

lemma update_tags_messages:
  "update_tags B u = Inr ms \<Longrightarrow>
     set ms \<subseteq> {''Tags must be an array'', ''Maximum 5 tags allowed'', ''Tags must be lowercase''}"
  by (cases u) (auto simp: update_tags_def dest!: check_tags_messages)

lemma validate_update_parts:
  assumes "validate_update B p = Inr msgs"
  obtains ts ds gs where
    "update_title B (p_title p) = Inr ts" "update_description B (p_description p) = Inr ds"
    "update_tags B (p_tags p) = Inr gs"
    "msgs = (case p_url p of None \<Rightarrow> []
               | Some v \<Rightarrow> if isValidUrl B v then [] else [''URL must be valid''])
            @ ts @ ds @ gs"
  using assms
  by (auto simp: validate_update_def and_then_Inr update_url_messages)

text \<open>
  C8. Whenever the update-mode validator returns its messages: "URL is required" is not
  among them; "URL must be valid" is among them exactly when the payload supplies a url
  that is not valid, so that an empty url is judged by its validity alone; and a supplied
  empty title does give "Title is required".
\<close>

theorem update_url_only_checked_for_validity:
  assumes "validate_update B p = Inr msgs"
  shows "''URL is required'' \<notin> set msgs
       \<and> (''URL must be valid'' \<in> set msgs
            \<longleftrightarrow> (\<exists>v. p_url p = Some v \<and> \<not> isValidUrl B v))
       \<and> (p_title p = Some (JStr []) \<longrightarrow> ''Title is required'' \<in> set msgs)"
proof -
  from assms obtain ts ds gs where
    t: "update_title B (p_title p) = Inr ts"
    and d: "update_description B (p_description p) = Inr ds"
    and g: "update_tags B (p_tags p) = Inr gs"
    and m: "msgs = (case p_url p of None \<Rightarrow> []
               | Some v \<Rightarrow> if isValidUrl B v then [] else [''URL must be valid''])
            @ ts @ ds @ gs"
    by (rule validate_update_parts)
  note sub = update_title_messages [OF t] update_description_messages [OF d]
    update_tags_messages [OF g]
  have other: "''URL is required'' \<notin> set (ts @ ds @ gs)"
    "''URL must be valid'' \<notin> set (ts @ ds @ gs)"
    using sub by auto
  have req: "''URL is required'' \<notin> set msgs"
    using other(1) by (auto simp: m split: option.splits)
  have valid: "''URL must be valid'' \<in> set msgs
      \<longleftrightarrow> (\<exists>v. p_url p = Some v \<and> \<not> isValidUrl B v)"
    using other(2) by (cases "p_url p") (auto simp: m)
  have title: "''Title is required'' \<in> set msgs" if "p_title p = Some (JStr [])"
    using t that by (auto simp: m update_title_def)
  from req valid title show ?thesis by blast
qed

theorem update_url_only_checked_for_validity_witness:
  "validate_update runtime empty_url_title_update
     = Inr [''URL must be valid'', ''Title is required'']
   \<and> ''URL is required'' \<notin> set [''URL must be valid'', ''Title is required'']
   \<and> \<not> isValidUrl runtime (JStr [])"
proof -
  have v: "validate_update runtime empty_url_title_update
     = Inr [''URL must be valid'', ''Title is required'']"
    by (simp add: empty_url_title_update_def validate_update_def and_then_def update_url_def
        update_title_def update_description_def update_tags_def isValidUrl_def runtime_simps
        https_url_def)
  have f: "p_url empty_url_title_update = Some (JStr [])"
    "p_title empty_url_title_update = Some (JStr [])"
    by (simp_all add: empty_url_title_update_def)
  from update_url_only_checked_for_validity [OF v] v f show ?thesis
    by simp
qed

section \<open>Optional fields in responses\<close>

text \<open>
  C9. The create handler turns an absent or falsy description into an absent one; the
  update handler stores the description of the payload as it is. An update with
  \<open>{"description": null}\<close> passes validation, and the bookmark that the update returns and
  that the list returns afterwards has the property \<open>description\<close> with the value null.
\<close>

theorem update_stores_null_description:
  "fst (put_bookmark runtime ''1'' null_description_update two_bookmarks)
     = Success 200 (DBookmark ((two_bookmarks ! 0) \<lparr> b_description := Some JNull \<rparr>))
   \<and> map_of (bookmark_json ((two_bookmarks ! 0) \<lparr> b_description := Some JNull \<rparr>))
       ''description'' = Some JNull
   \<and> get_bookmarks runtime None
       (snd (put_bookmark runtime ''1'' null_description_update two_bookmarks))
     = Success 200 (DList [(two_bookmarks ! 0) \<lparr> b_description := Some JNull \<rparr>,
                             two_bookmarks ! 1])"
proof -
  have f: "p_url null_description_update = None" "p_title null_description_update = None"
    "p_description null_description_update = Some JNull" "p_tags null_description_update = None"
    by (simp_all add: null_description_update_def)
  show ?thesis
    by (simp add: put_bookmark_def validate_null_description two_bookmarks_def seed_def
        updatedBookmark_def f bookmark_json_def property_def get_bookmarks_def)
qed

section \<open>Unknown identifiers\<close>

text \<open>
  C10. For every store, every id that no stored bookmark has and every payload, valid or
  not, the update handler and the delete handler answer "Bookmark not found" with status
  404 and leave the store as it was.
\<close>

theorem unknown_id_changes_nothing:
  assumes "ident \<notin> b_id ` set st"
  shows "put_bookmark B ident p st = (Failure 404 ''Bookmark not found'', st)
       \<and> delete_bookmark ident st = (Failure 404 ''Bookmark not found'', st)"
proof -
  from assms have "\<forall>b\<in>set st. \<not> (b_id b = ident)" by auto
  then have "findIndex (\<lambda>b. b_id b = ident) st = None"
    by (simp add: findIndex_None)
  then show ?thesis
    by (simp add: put_bookmark_def delete_bookmark_def)
qed

theorem unknown_id_changes_nothing_witness:
  "''nope'' \<notin> b_id ` set two_bookmarks
   \<and> put_bookmark runtime ''nope'' uppercase_tags_update two_bookmarks
       = (Failure 404 ''Bookmark not found'', two_bookmarks)
   \<and> delete_bookmark ''nope'' two_bookmarks = (Failure 404 ''Bookmark not found'', two_bookmarks)"
proof -
  have absent: "''nope'' \<notin> b_id ` set two_bookmarks"
    by (simp add: two_bookmarks_def seed_def)
  from unknown_id_changes_nothing [OF absent, of runtime uppercase_tags_update] absent
  show ?thesis by simp
qed

end
